theory Spec2Isabelle
  imports Complex_Main
begin

section \<open>Emergency transport module: data model and operations\<close>

text \<open>
  The module declares record types on top of an object-relational framework.  The
  operations of the module are embedded as functions over an explicit database state.
  A raised exception is a value of the type \<open>error\<close>; an operation that can raise
  returns its result together with the database as it stands at that moment.
\<close>

datatype error = AttributeError | NameError | UserError string

subsection \<open>Stock inventory lines\<close>

text \<open>
  The class \<open>InventoryLine\<close> declares the fields \<open>product\<close>, \<open>uom\<close>, \<open>unit_digits\<close>,
  \<open>quantity\<close> and \<open>moves\<close>; the framework adds \<open>id\<close>.  A line is the record of these
  fields, records of other models being referred to by their ids.  Reading an attribute
  of a line gives the value of the field of that name and raises \<open>AttributeError\<close> for
  any other name.  The quantity is a Python float; \<open>get_move\<close> only negates it and
  compares it with zero, which is exact on floats, so it is a real number here (a
  not-a-number quantity is outside this model).
\<close>

datatype pyval = PyId nat | PyInt int | PyFloat real | PyIds "nat list"

record inventory_line =
  line_id :: nat
  product :: nat
  uom :: nat
  unit_digits :: int
  quantity :: real
  moves :: "nat list"

definition getattr :: "inventory_line \<Rightarrow> string \<Rightarrow> error + pyval" where
  "getattr self name =
     (if name = ''id'' then Inr (PyId (line_id self))
      else if name = ''product'' then Inr (PyId (product self))
      else if name = ''uom'' then Inr (PyId (uom self))
      else if name = ''unit_digits'' then Inr (PyInt (unit_digits self))
      else if name = ''quantity'' then Inr (PyFloat (quantity self))
      else if name = ''moves'' then Inr (PyIds (moves self))
      else Inl AttributeError)"

record move =
  from_location :: pyval
  to_location :: pyval
  move_quantity :: real
  move_product :: nat
  move_uom :: nat
  move_company :: pyval
  effective_date :: pyval
  origin :: "string \<times> nat"

text \<open>
  \<open>Uom.compute_qty\<close> belongs to the product catalogue of the framework and the
  attributes of a record of another model to the framework's storage; both are
  parameters.  \<open>inventory_attr\<close> is the expression \<open>self.inventory.name\<close> over a
  lookup of the attributes of the line: the attribute \<open>inventory\<close> of the line is read
  first.
\<close>

definition inventory_attr ::
    "(inventory_line \<Rightarrow> string \<Rightarrow> error + pyval) \<Rightarrow> (pyval \<Rightarrow> string \<Rightarrow> error + pyval) \<Rightarrow>
      inventory_line \<Rightarrow> string \<Rightarrow> error + pyval" where
  "inventory_attr lookup record_attr self name =
     (case lookup self ''inventory'' of
        Inl e \<Rightarrow> Inl e
      | Inr inventory \<Rightarrow> record_attr inventory name)"

text \<open>The delta that \<open>get_move\<close> computes from the quantity of the line.\<close>

definition delta_qty :: "(nat \<Rightarrow> real \<Rightarrow> nat \<Rightarrow> real) \<Rightarrow> inventory_line \<Rightarrow> real" where
  "delta_qty compute_qty self = compute_qty (uom self) (- quantity self) (uom self)"

text \<open>
  The body of \<open>get_move\<close> over a lookup of the attributes of the line.  It gives
  \<open>Inr None\<close> where the source returns nothing, \<open>Inr (Some m)\<close> where it returns a
  movement, and \<open>Inl e\<close> where it raises.
\<close>

definition get_move_with ::
    "(inventory_line \<Rightarrow> string \<Rightarrow> error + pyval) \<Rightarrow> (nat \<Rightarrow> real \<Rightarrow> nat \<Rightarrow> real) \<Rightarrow>
      (pyval \<Rightarrow> string \<Rightarrow> error + pyval) \<Rightarrow> inventory_line \<Rightarrow> error + move option" where
  "get_move_with lookup compute_qty record_attr self =
     (let delta = delta_qty compute_qty self in
      if delta = 0 then Inr None
      else
        case inventory_attr lookup record_attr self ''location'' of
          Inl e \<Rightarrow> Inl e
        | Inr from_loc \<Rightarrow>
        case inventory_attr lookup record_attr self ''lost_found'' of
          Inl e \<Rightarrow> Inl e
        | Inr to_loc \<Rightarrow>
        case (if delta < 0 then (to_loc, from_loc, - delta) else (from_loc, to_loc, delta)) of
          (from_loc, to_loc, delta) \<Rightarrow>
        case inventory_attr lookup record_attr self ''company'' of
          Inl e \<Rightarrow> Inl e
        | Inr inventory_company \<Rightarrow>
        case inventory_attr lookup record_attr self ''date'' of
          Inl e \<Rightarrow> Inl e
        | Inr inventory_date \<Rightarrow>
            Inr (Some \<lparr>from_location = from_loc,
                       to_location = to_loc,
                       move_quantity = delta,
                       move_product = product self,
                       move_uom = uom self,
                       move_company = inventory_company,
                       effective_date = inventory_date,
                       origin = (''policoop.transport.line'', line_id self)\<rparr>))"

text \<open>\<open>get_move\<close> of the class: the body under the attributes the class declares.\<close>

definition get_move ::
    "(nat \<Rightarrow> real \<Rightarrow> nat \<Rightarrow> real) \<Rightarrow> (pyval \<Rightarrow> string \<Rightarrow> error + pyval) \<Rightarrow>
      inventory_line \<Rightarrow> error + move option" where
  "get_move compute_qty record_attr self = get_move_with getattr compute_qty record_attr self"

text \<open>
  Instances of the parameters for evaluation: the conversion of a quantity from a unit of
  measure into the same unit; a storage in which a record has the location 1, the
  lost-and-found location 2 and the record 3 under every other name; and the lookup of a
  line that, besides the declared fields, has an attribute \<open>inventory\<close> referring to the
  record 9, as a class declaring that field would give.
\<close>

definition same_unit_qty :: "nat \<Rightarrow> real \<Rightarrow> nat \<Rightarrow> real" where
  "same_unit_qty from_uom qty to_uom = qty"

definition example_record_attr :: "pyval \<Rightarrow> string \<Rightarrow> error + pyval" where
  "example_record_attr record name =
     (if name = ''location'' then Inr (PyId 1)
      else if name = ''lost_found'' then Inr (PyId 2)
      else Inr (PyId 3))"


definition line5 :: inventory_line where
  "line5 = \<lparr>line_id = 7, product = 11, uom = 1, unit_digits = 2, quantity = 5, moves = []\<rparr>"

subsection \<open>Cancelling the movements of inventory lines\<close>

text \<open>
  Modelled from the spec: the stock-movement subsystem (create, cancel, delete movement
  records) is a sibling module.  Its table holds, for each movement, the id, the state and
  the origin reference (model name and record id); its state also keeps the calls it
  receives, in order, each with the ids of the movements it is given.  \<open>Move.cancel\<close>
  puts the given movements into the state \<open>cancel\<close> and \<open>Move.delete\<close> removes them;
  when and how the subsystem refuses either is its own matter and not part of this model.
\<close>

record stock_move =
  sm_id :: nat
  sm_state :: string
  sm_origin :: "(string \<times> nat) option"

datatype stock_call = Cancel "nat list" | Delete "nat list"

record stock =
  stock_moves :: "stock_move list"
  stock_calls :: "stock_call list"

definition Move_cancel :: "stock \<Rightarrow> stock_move list \<Rightarrow> stock" where
  "Move_cancel st ms =
     st\<lparr>stock_moves :=
          map (\<lambda>m. if sm_id m \<in> set (map sm_id ms) then m\<lparr>sm_state := ''cancel''\<rparr> else m)
            (stock_moves st),
        stock_calls := stock_calls st @ [Cancel (map sm_id ms)]\<rparr>"

definition Move_delete :: "stock \<Rightarrow> stock_move list \<Rightarrow> stock" where
  "Move_delete st ms =
     st\<lparr>stock_moves := filter (\<lambda>m. sm_id m \<notin> set (map sm_id ms)) (stock_moves st),
        stock_calls := stock_calls st @ [Delete (map sm_id ms)]\<rparr>"

text \<open>
  The field \<open>moves\<close> of the line with a given id (a one-to-many over the origin of
  \<open>stock.move\<close>): the movements whose origin refers to the line.
\<close>

definition line_moves :: "stock \<Rightarrow> nat \<Rightarrow> stock_move list" where
  "line_moves st l =
     filter (\<lambda>m. sm_origin m = Some (''policoop.transport.line'', l)) (stock_moves st)"

text \<open>The list comprehension of \<open>cancel_move\<close>, over the ids of the lines.\<close>

definition cancel_move_moves :: "stock \<Rightarrow> nat list \<Rightarrow> stock_move list" where
  "cancel_move_moves st lines =
     concat (map (\<lambda>l. filter (\<lambda>m. line_moves st l \<noteq> []) (line_moves st l)) lines)"

definition cancel_move :: "stock \<Rightarrow> nat list \<Rightarrow> stock" where
  "cancel_move st lines =
     (let ms = cancel_move_moves st lines;
          st1 = Move_cancel st ms
      in Move_delete st1 ms)"

definition example_stock :: stock where
  "example_stock =
     \<lparr>stock_moves =
        [\<lparr>sm_id = 3, sm_state = ''done'', sm_origin = Some (''policoop.transport.line'', 7)\<rparr>,
         \<lparr>sm_id = 4, sm_state = ''draft'', sm_origin = Some (''policoop.transport.line'', 8)\<rparr>,
         \<lparr>sm_id = 5, sm_state = ''draft'', sm_origin = None\<rparr>,
         \<lparr>sm_id = 6, sm_state = ''draft'', sm_origin = Some (''policoop.transport.line'', 7)\<rparr>],
      stock_calls = []\<rparr>"

subsection \<open>Map link of a transport request\<close>

text \<open>
  The coordinates are numeric fields: \<open>None\<close> or a Python \<open>Decimal\<close>, which is a sign,
  a coefficient and an exponent.  A \<open>Decimal\<close> is true in a condition when it is not
  zero; \<open>None\<close> is false.  The rendering \<open>str\<close> of a \<open>Decimal\<close> belongs to the
  Python library and is a parameter.
\<close>

datatype decimal = Decimal (dec_sign: bool) (dec_coefficient: nat) (dec_exponent: int)

definition decimal_bool :: "decimal option \<Rightarrow> bool" where
  "decimal_bool v = (case v of None \<Rightarrow> False | Some d \<Rightarrow> dec_coefficient d \<noteq> 0)"

definition py_str :: "(decimal \<Rightarrow> string) \<Rightarrow> decimal option \<Rightarrow> string" where
  "py_str str_decimal v = (case v of None \<Rightarrow> ''None'' | Some d \<Rightarrow> str_decimal d)"

definition on_change_with_urladdr ::
    "(decimal \<Rightarrow> string) \<Rightarrow> decimal option \<Rightarrow> decimal option \<Rightarrow> string" where
  "on_change_with_urladdr str_decimal latitude longitude =
     (let ret_url = '''' in
      if decimal_bool latitude \<and> decimal_bool longitude then
        ''http://openstreetmap.org/?mlat='' @ py_str str_decimal latitude @
          ''&mlon='' @ py_str str_decimal longitude
      else ret_url)"

subsection \<open>Schema migration of the inventory line table\<close>

text \<open>
  The names bound in the module's namespace: its imports, \<open>__all__\<close> and its classes.
  Reading any other name that is not a Python builtin raises \<open>NameError\<close>.
\<close>

definition module_globals :: "string list" where
  "module_globals =
     [''datetime'', ''timedelta'', ''date'', ''backend'', ''Eval'', ''Not'', ''Bool'',
      ''PYSONEncoder'', ''Equal'', ''ModelView'', ''ModelSingleton'', ''ModelSQL'',
      ''fields'', ''Unique'', ''Check'', ''Pool'', ''Transaction'', ''__all__'',
      ''PolicoopSequences'', ''TransportRequest'', ''AmbulanceTransport'',
      ''TransportHealthProfessional'', ''InventoryLine'']"

definition global_name :: "string \<Rightarrow> error + unit" where
  "global_name n = (if n \<in> set module_globals then Inr () else Inl NameError)"

text \<open>
  The database as the migration sees it: the columns and constraints of the line table,
  its rows (id and legacy \<open>move\<close> reference), and the origin column of \<open>stock.move\<close>.
\<close>

record migration_db =
  line_columns :: "string list"
  line_constraints :: "string list"
  line_rows :: "(nat \<times> nat option) list"
  move_origins :: "(nat \<times> string option) list"

text \<open>
  Modelled from the spec: the framework's table handling.  Registering a model adds the
  columns of its stored fields and never removes a column; the handler answers whether a
  column exists and drops a constraint or a column.
\<close>

definition ModelSQL_register :: "migration_db \<Rightarrow> migration_db" where
  "ModelSQL_register db =
     db\<lparr>line_columns := line_columns db @
          filter (\<lambda>c. c \<notin> set (line_columns db)) [''id'', ''product'', ''quantity'']\<rparr>"

definition drop_constraint :: "string \<Rightarrow> migration_db \<Rightarrow> migration_db" where
  "drop_constraint c db = db\<lparr>line_constraints := filter (\<lambda>x. x \<noteq> c) (line_constraints db)\<rparr>"

definition column_exist :: "migration_db \<Rightarrow> string \<Rightarrow> bool" where
  "column_exist db c = (c \<in> set (line_columns db))"

definition drop_column :: "string \<Rightarrow> migration_db \<Rightarrow> migration_db" where
  "drop_column c db =
     db\<lparr>line_columns := filter (\<lambda>x. x \<noteq> c) (line_columns db),
        line_rows := map (\<lambda>(i, m). (i, None)) (line_rows db)\<rparr>"

definition update_origin :: "nat \<Rightarrow> string \<Rightarrow> migration_db \<Rightarrow> migration_db" where
  "update_origin move_id v db =
     db\<lparr>move_origins :=
          map (\<lambda>(i, orig). if i = move_id then (i, Some v) else (i, orig)) (move_origins db)\<rparr>"

fun str_nat :: "nat \<Rightarrow> string" where
  "str_nat n =
     (if n < 10 then [char_of (48 + n)] else str_nat (n div 10) @ [char_of (48 + n mod 10)])"

definition register :: "migration_db \<Rightarrow> (error + unit) \<times> migration_db" where
  "register db =
     (let db1 = ModelSQL_register db;
          db2 = drop_constraint ''inventory_product_uniq'' db1
      in if column_exist db2 ''move'' then
           (case global_name ''Null'' of
              Inl e \<Rightarrow> (Inl e, db2)
            | Inr u \<Rightarrow>
                let fetched = concat (map (\<lambda>(line_id, m).
                                case m of None \<Rightarrow> [] | Some move_id \<Rightarrow> [(line_id, move_id)])
                              (line_rows db2));
                    db3 = fold (\<lambda>(line_id, move_id).
                                update_origin move_id
                                  (''policoop.transport.line'' @ '','' @ str_nat line_id))
                            fetched db2
                in (Inr (), drop_column ''move'' db3))
         else (Inr (), db2))"

definition legacy_db :: migration_db where
  "legacy_db =
     \<lparr>line_columns = [''id'', ''product'', ''quantity'', ''move''],
      line_constraints = [''inventory_product_uniq''],
      line_rows = [(7, Some 3)],
      move_origins = [(3, None)]\<rparr>"

subsection \<open>Transport requests\<close>

text \<open>
  Field values as Python has them: \<open>None\<close>, a string, a \<open>Decimal\<close>, a record id, a
  date and time.  \<open>bool_val\<close> is the truth value of a value in a condition.  The values
  given to \<open>create\<close> and \<open>write\<close> are dictionaries from field names to values.
\<close>

datatype val = Null | Str string | Num decimal | Ref nat | Stamp int

fun bool_val :: "val \<Rightarrow> bool" where
  "bool_val Null = False"
| "bool_val (Str s) = (s \<noteq> [])"
| "bool_val (Num d) = (dec_coefficient d \<noteq> 0)"
| "bool_val (Ref i) = (i \<noteq> 0)"
| "bool_val (Stamp t) = True"

type_synonym dict = "string \<rightharpoonup> val"

definition dict_get :: "dict \<Rightarrow> string \<Rightarrow> val" where
  "dict_get values k = (case values k of None \<Rightarrow> Null | Some v \<Rightarrow> v)"

text \<open>
  The database: the singleton row of \<open>policoop.sequences\<close> (absent until it is
  saved) with its sequence reference, the state of the numbering service, and the table of
  transport requests, each row an id and a value for every column.
\<close>

record policoop_sequences =
  transport_request_code_sequence :: "nat option"

record 's database =
  sequences_row :: "policoop_sequences option"
  ir_sequence :: 's
  transport_request :: "(nat \<times> (string \<Rightarrow> val)) list"
  transport_request_id_seq :: nat

text \<open>
  What the module calls outside itself: the clock, the lookup of the operator of the
  session, and \<open>Sequence.get_id\<close> of the numbering service, which returns the next code of
  a sequence and the service's new state, or raises.
\<close>

record 's pool =
  now :: int
  get_health_professional :: "nat option"
  get_id :: "nat \<Rightarrow> 's \<Rightarrow> error + string \<times> 's"

definition default_request_date :: "'s pool \<Rightarrow> val" where
  "default_request_date pool = Stamp (now pool)"

definition default_operator :: "'s pool \<Rightarrow> val" where
  "default_operator pool =
     (case get_health_professional pool of None \<Rightarrow> Null | Some operator \<Rightarrow> Ref operator)"

definition default_state :: val where
  "default_state = Str ''open''"

definition defaults :: "'s pool \<Rightarrow> dict" where
  "defaults pool =
     [''request_date'' \<mapsto> default_request_date pool,
      ''operator'' \<mapsto> default_operator pool,
      ''state'' \<mapsto> default_state]"

definition required_fields :: "string list" where
  "required_fields = [''request_date'', ''return_date'']"

text \<open>
  The constraints the class declares in \<open>__setup__\<close>: the name, the constraint and the
  error message of each.
\<close>

datatype sql_constraint = Unique string

definition sql_constraints :: "(string \<times> sql_constraint \<times> string) list" where
  "sql_constraints =
     [(''code_uniq'', Unique ''code'', ''This Request Code already exists'')]"

text \<open>
  Modelled from the spec: the framework's record persistence.  \<open>ModelSQL.create\<close> stores
  one row per dictionary, in order: a field the dictionary does not mention takes its
  default, a required field without a value is refused with an error, a row that violates
  a declared constraint is refused with the message of the constraint (a unique column
  collides with the same value in a stored row; empty columns never collide), and the
  row gets the next id.  An error leaves the database as it is at that moment; undoing
  the transaction is the caller's part.
\<close>

definition new_row :: "'s pool \<Rightarrow> dict \<Rightarrow> string \<Rightarrow> val" where
  "new_row pool values = (\<lambda>f. dict_get (defaults pool ++ values) f)"

fun violated ::
    "(nat \<times> (string \<Rightarrow> val)) list \<Rightarrow> (string \<Rightarrow> val) \<Rightarrow>
      (string \<times> sql_constraint \<times> string) list \<Rightarrow> string option" where
  "violated table row [] = None"
| "violated table row ((name, Unique column, message) # constraints) =
     (if row column \<noteq> Null \<and> row column \<in> set (map (\<lambda>r. snd r column) table)
      then Some message
      else violated table row constraints)"

fun ModelSQL_create ::
    "'s pool \<Rightarrow> 's database \<Rightarrow> dict list \<Rightarrow> (error + nat list) \<times> 's database" where
  "ModelSQL_create pool db [] = (Inr [], db)"
| "ModelSQL_create pool db (values # vlist) =
     (let row = new_row pool values in
      if list_ex (\<lambda>f. row f = Null) required_fields then
        (Inl (UserError ''required_field''), db)
      else
        case violated (transport_request db) row sql_constraints of
          Some message \<Rightarrow> (Inl (UserError message), db)
        | None \<Rightarrow>
            let i = transport_request_id_seq db;
                db1 = db\<lparr>transport_request := transport_request db @ [(i, row)],
                         transport_request_id_seq := Suc i\<rparr>
            in case ModelSQL_create pool db1 vlist of
                 (Inl e, db2) \<Rightarrow> (Inl e, db2)
               | (Inr ids, db2) \<Rightarrow> (Inr (i # ids), db2))"

text \<open>
  Modelled from the spec: \<open>ModelSQL.write\<close> stores the given values in every listed
  record.  The only field the module writes is \<open>state\<close>, which no constraint covers.
\<close>

definition ModelSQL_write :: "'s database \<Rightarrow> nat list \<Rightarrow> dict \<Rightarrow> 's database" where
  "ModelSQL_write db ids values =
     db\<lparr>transport_request :=
          map (\<lambda>(i, row). if i \<in> set ids then (i, (\<lambda>f. case values f of None \<Rightarrow> row f | Some v \<Rightarrow> v))
                          else (i, row))
            (transport_request db)\<rparr>"

text \<open>
  \<open>config.transport_request_code_sequence\<close> for \<open>config = Config(1)\<close>: the reference of
  the singleton row, \<open>None\<close> when the row is missing or the reference is not set.  Reading
  \<open>.id\<close> of \<open>None\<close> raises \<open>AttributeError\<close>.
\<close>

definition config_sequence :: "'s database \<Rightarrow> nat option" where
  "config_sequence db =
     (case sequences_row db of None \<Rightarrow> None
      | Some config \<Rightarrow> transport_request_code_sequence config)"

text \<open>The loop of \<open>TransportRequest.create\<close> over the copied dictionaries.\<close>

fun create_loop ::
    "'s pool \<Rightarrow> 's database \<Rightarrow> dict list \<Rightarrow> (error + dict list) \<times> 's database" where
  "create_loop pool db [] = (Inr [], db)"
| "create_loop pool db (values # vlist) =
     (if \<not> bool_val (dict_get values ''code'') then
        (case config_sequence db of
           None \<Rightarrow> (Inl AttributeError, db)
         | Some sequence_id \<Rightarrow>
             (case get_id pool sequence_id (ir_sequence db) of
                Inl e \<Rightarrow> (Inl e, db)
              | Inr (code, s) \<Rightarrow>
                  (case create_loop pool (db\<lparr>ir_sequence := s\<rparr>) vlist of
                     (Inl e, db1) \<Rightarrow> (Inl e, db1)
                   | (Inr vs, db1) \<Rightarrow> (Inr (values(''code'' \<mapsto> Str code) # vs), db1))))
      else
        (case create_loop pool db vlist of
           (Inl e, db1) \<Rightarrow> (Inl e, db1)
         | (Inr vs, db1) \<Rightarrow> (Inr (values # vs), db1)))"

definition create ::
    "'s pool \<Rightarrow> 's database \<Rightarrow> dict list \<Rightarrow> (error + nat list) \<times> 's database" where
  "create pool db vlist =
     (case create_loop pool db vlist of
        (Inl e, db1) \<Rightarrow> (Inl e, db1)
      | (Inr vlist1, db1) \<Rightarrow> ModelSQL_create pool db1 vlist1)"

definition open_support :: "'s database \<Rightarrow> nat list \<Rightarrow> 's database" where
  "open_support db srs = ModelSQL_write db srs [''state'' \<mapsto> Str ''open'']"

definition close_support :: "'s database \<Rightarrow> nat list \<Rightarrow> 's database" where
  "close_support db srs = ModelSQL_write db srs [''state'' \<mapsto> Str ''closed'']"

text \<open>The stored state of the request with a given id, if there is such a request.\<close>

definition state_of :: "'s database \<Rightarrow> nat \<Rightarrow> val option" where
  "state_of db i = map_option (\<lambda>row. row ''state'') (map_of (transport_request db) i)"

text \<open>
  A numbering service for concrete evaluation: its state is the next number, the code is
  the letter T followed by the number.
\<close>

definition counter_get_id :: "nat \<Rightarrow> nat \<Rightarrow> error + string \<times> nat" where
  "counter_get_id sequence_id n = Inr (CHR ''T'' # str_nat n, Suc n)"

definition example_pool :: "nat pool" where
  "example_pool = \<lparr>now = 100, get_health_professional = Some 4, get_id = counter_get_id\<rparr>"

definition example_db :: "nat database" where
  "example_db =
     \<lparr>sequences_row = Some \<lparr>transport_request_code_sequence = Some 9\<rparr>,
      ir_sequence = 1,
      transport_request = [],
      transport_request_id_seq = 1\<rparr>"

definition example_values :: dict where
  "example_values = [''return_date'' \<mapsto> Stamp 200]"

definition stored_db :: "nat database" where
  "stored_db = example_db\<lparr>transport_request := [(1, new_row example_pool example_values)]\<rparr>"

text \<open>
  A database that already holds two requests, with the codes A and T7, and a numbering
  service that returns the empty code.
\<close>

definition busy_db :: "nat database" where
  "busy_db =
     example_db\<lparr>transport_request :=
         [(1, new_row example_pool (example_values(''code'' \<mapsto> Str ''A''))),
          (2, new_row example_pool (example_values(''code'' \<mapsto> Str ''T7'')))],
       transport_request_id_seq := 3\<rparr>"


section \<open>Properties\<close>

subsection \<open>Inventory line to stock movement\<close>



text \<open>
  C4.  When the converted delta is exactly zero, \<open>get_move\<close> returns nothing; this is
  the case for a line of quantity 0 whenever the conversion maps 0 to 0.
\<close>

theorem get_move_zero_delta:
  "(compute_qty (uom l) (- quantity l) (uom l) = 0 \<longrightarrow>
      get_move compute_qty record_attr l = Inr None) \<and>
   (quantity l = 0 \<and> compute_qty (uom l) 0 (uom l) = 0 \<longrightarrow>
      get_move compute_qty record_attr l = Inr None)"
  by (simp add: get_move_def get_move_with_def delta_qty_def)

theorem get_move_zero_delta_witness:
  "same_unit_qty (uom (line5\<lparr>quantity := 0\<rparr>)) (- quantity (line5\<lparr>quantity := 0\<rparr>))
      (uom (line5\<lparr>quantity := 0\<rparr>)) = 0 \<and>
   quantity (line5\<lparr>quantity := 0\<rparr>) = 0 \<and>
   get_move same_unit_qty example_record_attr (line5\<lparr>quantity := 0\<rparr>) = Inr None"
  using get_move_zero_delta [of same_unit_qty "line5\<lparr>quantity := 0\<rparr>" example_record_attr]
  by (simp add: same_unit_qty_def line5_def)




text \<open>
  C5.  For the line \<open>line5\<close> the delta is \<open>-5\<close>, which is negative, and \<open>get_move\<close>
  raises \<open>AttributeError\<close> when it reads \<open>self.inventory\<close>, a field the class does not
  declare: the locations are not exchanged and no movement is returned.
\<close>

theorem get_move_negative_delta_raises:
  "delta_qty same_unit_qty line5 < 0 \<and>
   getattr line5 ''inventory'' = Inl AttributeError \<and>
   get_move same_unit_qty record_attr line5 = Inl AttributeError"
  by (simp add: get_move_def get_move_with_def inventory_attr_def getattr_def delta_qty_def
      same_unit_qty_def line5_def)

subsection \<open>Cancelling the movements of inventory lines\<close>

lemma cancel_move_moves_concat:
  "cancel_move_moves st lines = concat (map (line_moves st) lines)"
proof -
  have "filter (\<lambda>m. line_moves st l \<noteq> []) (line_moves st l) = line_moves st l" for l
    by (cases "line_moves st l") simp_all
  then show ?thesis
    by (simp add: cancel_move_moves_def)
qed

lemma delete_after_cancel:
  "filter (\<lambda>m. sm_id m \<notin> I)
     (map (\<lambda>m. if sm_id m \<in> I then m\<lparr>sm_state := ''cancel''\<rparr> else m) table) =
   filter (\<lambda>m. sm_id m \<notin> I) table"
  by (induction table) auto

lemma set_concat_line_moves:
  "sm_id ` set (concat (map (line_moves st) lines)) =
     sm_id ` (\<Union>l\<in>set lines. set (line_moves st l))"
  by simp

lemma cancel_move_table:
  "stock_moves (cancel_move st lines) =
     filter (\<lambda>m. sm_id m \<notin> sm_id ` (\<Union>l\<in>set lines. set (line_moves st l))) (stock_moves st)"
  by (simp add: cancel_move_def Let_def Move_delete_def Move_cancel_def
      cancel_move_moves_concat delete_after_cancel)

lemma cancel_move_no_moves:
  assumes "l \<in> set lines"
  shows "line_moves (cancel_move st lines) l = []"
proof -
  have "\<not> (\<exists>m. m \<in> set (line_moves (cancel_move st lines) l))"
  proof
    assume "\<exists>m. m \<in> set (line_moves (cancel_move st lines) l)"
    then obtain m where m: "m \<in> set (stock_moves (cancel_move st lines))"
      and o: "sm_origin m = Some (''policoop.transport.line'', l)"
      by (auto simp add: line_moves_def)
    from m have t: "m \<in> set (stock_moves st)"
      and n: "sm_id m \<notin> sm_id ` (\<Union>l\<in>set lines. set (line_moves st l))"
      by (simp_all add: cancel_move_table)
    from t o have "m \<in> set (line_moves st l)"
      by (simp add: line_moves_def)
    with assms have "m \<in> (\<Union>l\<in>set lines. set (line_moves st l))"
      by blast
    then have "sm_id m \<in> sm_id ` (\<Union>l\<in>set lines. set (line_moves st l))"
      by (rule imageI)
    with n show False
      by simp
  qed
  then show ?thesis
    by (cases "line_moves (cancel_move st lines) l") auto
qed

text \<open>
  C6.  For any lines, \<open>cancel_move\<close> collects exactly the movements linked to the lines,
  line by line; it asks the stock subsystem to cancel the collected movements and then to
  delete them, and makes no other call; afterwards the table holds the movements it held
  before except those with the id of a collected one, and no movement is linked to any of
  the lines.
\<close>

theorem cancel_move_removes_all:
  "cancel_move_moves st lines = concat (map (line_moves st) lines) \<and>
   stock_calls (cancel_move st lines) =
     stock_calls st @
       [Cancel (map sm_id (concat (map (line_moves st) lines))),
        Delete (map sm_id (concat (map (line_moves st) lines)))] \<and>
   stock_moves (cancel_move st lines) =
     filter (\<lambda>m. sm_id m \<notin> sm_id ` (\<Union>l\<in>set lines. set (line_moves st l))) (stock_moves st) \<and>
   (\<forall>l\<in>set lines. line_moves (cancel_move st lines) l = [])"
proof (intro conjI ballI)
  show "cancel_move_moves st lines = concat (map (line_moves st) lines)"
    by (rule cancel_move_moves_concat)
  show "stock_calls (cancel_move st lines) =
     stock_calls st @
       [Cancel (map sm_id (concat (map (line_moves st) lines))),
        Delete (map sm_id (concat (map (line_moves st) lines)))]"
    by (simp add: cancel_move_def Let_def Move_delete_def Move_cancel_def
        cancel_move_moves_concat)
  show "stock_moves (cancel_move st lines) =
     filter (\<lambda>m. sm_id m \<notin> sm_id ` (\<Union>l\<in>set lines. set (line_moves st l))) (stock_moves st)"
    by (rule cancel_move_table)
  show "line_moves (cancel_move st lines) l = []" if "l \<in> set lines" for l
    using that by (rule cancel_move_no_moves)
qed

theorem cancel_move_removes_all_witness:
  "7 \<in> set [7::nat] \<and>
   map sm_id (line_moves example_stock 7) = [3, 6] \<and>
   map sm_id (cancel_move_moves example_stock [7]) = [3, 6] \<and>
   stock_calls (cancel_move example_stock [7]) = [Cancel [3, 6], Delete [3, 6]] \<and>
   map sm_id (stock_moves (cancel_move example_stock [7])) = [4, 5] \<and>
   line_moves (cancel_move example_stock [7]) 7 = []"
proof -
  have l: "7 \<in> set [7::nat]"
    by simp
  have m: "map sm_id (line_moves example_stock 7) = [3, 6]"
    by (simp add: line_moves_def example_stock_def)
  have u: "sm_id ` (\<Union>l\<in>set [7]. set (line_moves example_stock l)) = {3, 6}"
    by (simp add: line_moves_def example_stock_def)
  note t = cancel_move_removes_all [of example_stock "[7]"]
  from t m have c: "map sm_id (cancel_move_moves example_stock [7]) = [3, 6]"
    by simp
  from t m have k: "stock_calls (cancel_move example_stock [7]) = [Cancel [3, 6], Delete [3, 6]]"
    by (simp add: example_stock_def)
  from t u have r: "map sm_id (stock_moves (cancel_move example_stock [7])) = [4, 5]"
    by (simp add: example_stock_def)
  from t l have e: "line_moves (cancel_move example_stock [7]) 7 = []"
    by blast
  from l m c k r e show ?thesis
    by (intro conjI)
qed

subsection \<open>Map link of a transport request\<close>

lemma on_change_with_urladdr_nonzero:
  "decimal_bool latitude \<Longrightarrow> decimal_bool longitude \<Longrightarrow>
     on_change_with_urladdr str_decimal latitude longitude =
       ''http://openstreetmap.org/?mlat='' @ str_decimal (the latitude) @
       ''&mlon='' @ str_decimal (the longitude)"
  by (auto simp add: on_change_with_urladdr_def decimal_bool_def py_str_def
      split: option.splits)

lemma on_change_with_urladdr_unset:
  "latitude = None \<or> longitude = None \<Longrightarrow>
     on_change_with_urladdr str_decimal latitude longitude = ''''"
  by (auto simp add: on_change_with_urladdr_def decimal_bool_def)

text \<open>
  C2.  The map link is the template with both coordinates substituted when both are set
  and different from zero, and empty when one of them is not set.  A coordinate that is
  set to zero counts as missing: with the latitude 0 and the longitude 10 the function
  returns the empty string and not the template, whatever \<open>str\<close> renders.  The
  comment in the source says that the coordinates are used whenever they are given.
\<close>

theorem on_change_with_urladdr_zero_latitude:
  "on_change_with_urladdr str_decimal (Some (Decimal False 0 0)) (Some (Decimal False 10 0))
     = '''' \<and>
   on_change_with_urladdr str_decimal (Some (Decimal False 0 0)) (Some (Decimal False 10 0))
     \<noteq> ''http://openstreetmap.org/?mlat='' @ str_decimal (Decimal False 0 0) @
         ''&mlon='' @ str_decimal (Decimal False 10 0)"
  by (simp add: on_change_with_urladdr_def decimal_bool_def)

subsection \<open>Schema migration of the inventory line table\<close>

lemma register_legacy_column:
  "column_exist db ''move'' \<Longrightarrow>
     register db = (Inl NameError, drop_constraint ''inventory_product_uniq'' (ModelSQL_register db))"
  by (simp add: register_def column_exist_def drop_constraint_def ModelSQL_register_def
      global_name_def module_globals_def)

text \<open>
  C9.  On a database whose line table still has the legacy column \<open>move\<close>, with the line
  7 referring to the movement 3, the migration raises \<open>NameError\<close> when it reads the name
  \<open>Null\<close>, which the module never binds: the origin of the movement is not rewritten and
  the column is not dropped.
\<close>

theorem register_legacy_db:
  "register legacy_db =
     (Inl NameError,
      \<lparr>line_columns = [''id'', ''product'', ''quantity'', ''move''],
       line_constraints = [],
       line_rows = [(7, Some 3)],
       move_origins = [(3, None)]\<rparr>)"
  by (simp add: register_def legacy_db_def ModelSQL_register_def drop_constraint_def
      column_exist_def global_name_def module_globals_def)

subsection \<open>Opening and closing a transport request\<close>

lemma map_of_update_rows:
  "map_of (map (\<lambda>(i, row). if P i then (i, f row) else (i, row)) rows) k =
     map_option (\<lambda>row. if P k then f row else row) (map_of rows k)"
  by (induction rows) auto

lemma state_of_write:
  "state_of (ModelSQL_write db ids [''state'' \<mapsto> v]) i =
     map_option (\<lambda>s. if i \<in> set ids then v else s) (state_of db i)"
  by (cases "map_of (transport_request db) i")
     (simp_all add: state_of_def ModelSQL_write_def map_of_update_rows)

lemma ModelSQL_write_twice:
  "ModelSQL_write (ModelSQL_write db srs vs) srs vs = ModelSQL_write db srs vs"
proof -
  let ?g = "\<lambda>(i, row :: string \<Rightarrow> val).
    if i \<in> set srs then (i, (\<lambda>f. case vs f of None \<Rightarrow> row f | Some v \<Rightarrow> v)) else (i, row)"
  have "?g \<circ> ?g = ?g"
    by (auto simp add: fun_eq_iff split: option.splits)
  then show ?thesis
    by (simp add: ModelSQL_write_def)
qed

text \<open>
  C7.  A request whose stored state is \<open>open\<close> has the stored state \<open>open\<close> after
  \<open>open_support\<close>, and one whose stored state is \<open>closed\<close> has the stored state
  \<open>closed\<close> after \<open>close_support\<close>; applying either action a second time changes
  nothing.
\<close>

theorem open_close_support_same_state:
  "(state_of db i = Some (Str ''open'') \<longrightarrow>
      state_of (open_support db srs) i = Some (Str ''open'')) \<and>
   (state_of db i = Some (Str ''closed'') \<longrightarrow>
      state_of (close_support db srs) i = Some (Str ''closed'')) \<and>
   open_support (open_support db srs) srs = open_support db srs \<and>
   close_support (close_support db srs) srs = close_support db srs"
  by (simp add: open_support_def close_support_def state_of_write ModelSQL_write_twice)

theorem open_close_support_same_state_witness:
  "state_of stored_db 1 = Some (Str ''open'') \<and>
   state_of (open_support stored_db [1]) 1 = Some (Str ''open'') \<and>
   state_of (close_support stored_db [1]) 1 = Some (Str ''closed'') \<and>
   state_of (close_support (close_support stored_db [1]) [1]) 1 = Some (Str ''closed'')"
proof -
  have o: "state_of stored_db 1 = Some (Str ''open'')"
    by (simp add: state_of_def stored_db_def example_db_def new_row_def dict_get_def
        defaults_def default_state_def example_values_def)
  have c: "state_of (close_support stored_db [1]) 1 = Some (Str ''closed'')"
    using o by (simp add: close_support_def state_of_write)
  from open_close_support_same_state [of stored_db 1 "[1]"] o
    open_close_support_same_state [of "close_support stored_db [1]" 1 "[1]"] c
  show ?thesis
    by simp
qed

subsection \<open>Creating transport requests\<close>

lemma config_sequence_ir [simp]:
  "config_sequence (db\<lparr>ir_sequence := s\<rparr>) = config_sequence db"
  by (simp add: config_sequence_def)

lemma create_loop_Cons:
  assumes "create_loop pool db (v # vlist) = (Inr vs, db1)"
  obtains vs' where "bool_val (dict_get v ''code'')"
      "create_loop pool db vlist = (Inr vs', db1)" "vs = v # vs'"
  | vs' sid code s where "\<not> bool_val (dict_get v ''code'')"
      "config_sequence db = Some sid" "get_id pool sid (ir_sequence db) = Inr (code, s)"
      "create_loop pool (db\<lparr>ir_sequence := s\<rparr>) vlist = (Inr vs', db1)"
      "vs = v(''code'' \<mapsto> Str code) # vs'"
  using assms
  by (cases "bool_val (dict_get v ''code'')")
     (auto split: prod.splits sum.splits option.splits)

lemma create_loop_length:
  "create_loop pool db vlist = (Inr vs, db1) \<Longrightarrow> length vs = length vlist"
proof (induction vlist arbitrary: db vs)
  case Nil
  then show ?case by simp
next
  case (Cons v vlist)
  from Cons.prems show ?case
    by (rule create_loop_Cons) (auto dest: Cons.IH)
qed

lemma create_loop_table:
  "create_loop pool db vlist = (Inr vs, db1) \<Longrightarrow> transport_request db1 = transport_request db"
proof (induction vlist arbitrary: db vs)
  case Nil
  then show ?case by simp
next
  case (Cons v vlist)
  from Cons.prems show ?case
    by (rule create_loop_Cons) (auto dest: Cons.IH)
qed

lemma create_loop_keep:
  "create_loop pool db vlist = (Inr vs, db1) \<Longrightarrow> k < length vlist \<Longrightarrow>
     bool_val (dict_get (vlist ! k) ''code'') \<Longrightarrow> vs ! k = vlist ! k"
proof (induction vlist arbitrary: db vs k)
  case Nil
  then show ?case by simp
next
  case (Cons v vlist)
  from Cons.prems(1) show ?case
  proof (rule create_loop_Cons)
    fix vs' assume "create_loop pool db vlist = (Inr vs', db1)" "vs = v # vs'"
    with Cons.prems(2,3) Cons.IH [of db vs'] show ?thesis
      by (cases k) auto
  next
    fix vs' sid code s
    assume "\<not> bool_val (dict_get v ''code'')"
      "create_loop pool (db\<lparr>ir_sequence := s\<rparr>) vlist = (Inr vs', db1)"
      "vs = v(''code'' \<mapsto> Str code) # vs'"
    with Cons.prems(2,3) Cons.IH [of "db\<lparr>ir_sequence := s\<rparr>" vs'] show ?thesis
      by (cases k) auto
  qed
qed

lemma create_loop_code:
  "create_loop pool db vlist = (Inr vs, db1) \<Longrightarrow> k < length vlist \<Longrightarrow>
     \<not> bool_val (dict_get (vlist ! k) ''code'') \<Longrightarrow>
     \<exists>sid s code s'. config_sequence db = Some sid \<and> get_id pool sid s = Inr (code, s') \<and>
        vs ! k = (vlist ! k)(''code'' \<mapsto> Str code)"
proof (induction vlist arbitrary: db vs k)
  case Nil
  then show ?case by simp
next
  case (Cons v vlist)
  from Cons.prems(1) show ?case
  proof (rule create_loop_Cons)
    fix vs' assume "bool_val (dict_get v ''code'')"
      "create_loop pool db vlist = (Inr vs', db1)" "vs = v # vs'"
    with Cons.prems(2,3) Cons.IH [of db vs'] show ?thesis
      by (cases k) auto
  next
    fix vs' sid code s
    assume a: "config_sequence db = Some sid"
      "get_id pool sid (ir_sequence db) = Inr (code, s)"
      "create_loop pool (db\<lparr>ir_sequence := s\<rparr>) vlist = (Inr vs', db1)"
      "vs = v(''code'' \<mapsto> Str code) # vs'"
    show ?thesis
    proof (cases k)
      case 0
      with a show ?thesis by auto
    next
      case (Suc j)
      with a Cons.prems(2,3) Cons.IH [of "db\<lparr>ir_sequence := s\<rparr>" vs' j] show ?thesis
        by simp
    qed
  qed
qed

lemma create_loop_fails:
  "config_sequence db = None \<Longrightarrow>
   list_ex (\<lambda>values. \<not> bool_val (dict_get values ''code'')) vlist \<Longrightarrow>
   create_loop pool db vlist = (Inl AttributeError, db)"
  by (induction vlist) auto

lemma ModelSQL_create_ok:
  "ModelSQL_create pool db vlist = (Inr ids, db1) \<Longrightarrow>
     \<exists>new. transport_request db1 = transport_request db @ new \<and>
       map fst new = ids \<and> map snd new = map (new_row pool) vlist \<and>
       (\<forall>r\<in>set new. snd r ''code'' \<noteq> Null \<longrightarrow>
          length (filter (\<lambda>r'. snd r' ''code'' = snd r ''code'') (transport_request db1)) = 1)"
proof (induction vlist arbitrary: db ids db1)
  case Nil
  then show ?case by simp
next
  case (Cons v vlist)
  let ?row = "new_row pool v"
  let ?i = "transport_request_id_seq db"
  let ?db = "db\<lparr>transport_request := transport_request db @ [(?i, ?row)],
                 transport_request_id_seq := Suc ?i\<rparr>"
  from Cons.prems obtain ids' where
        u: "?row ''code'' = Null \<or> ?row ''code'' \<notin> set (map (\<lambda>r. snd r ''code'') (transport_request db))"
    and r: "ModelSQL_create pool ?db vlist = (Inr ids', db1)"
    and ids: "ids = ?i # ids'"
    by (auto simp add: Let_def sql_constraints_def
        split: if_splits prod.splits sum.splits option.splits)
  from Cons.IH [OF r] obtain new' where
        t: "transport_request db1 = (transport_request db @ [(?i, ?row)]) @ new'"
    and f: "map fst new' = ids'" and s: "map snd new' = map (new_row pool) vlist"
    and q: "\<forall>r\<in>set new'. snd r ''code'' \<noteq> Null \<longrightarrow>
          length (filter (\<lambda>r'. snd r' ''code'' = snd r ''code'') (transport_request db1)) = 1"
    by auto
  have "length (filter (\<lambda>r'. snd r' ''code'' = ?row ''code'') (transport_request db1)) = 1"
    if n: "?row ''code'' \<noteq> Null" and m: "\<forall>r\<in>set new'. snd r ''code'' \<noteq> ?row ''code''"
  proof -
    from u n have "filter (\<lambda>r'. snd r' ''code'' = ?row ''code'') (transport_request db) = []"
      by (force simp add: filter_empty_conv image_iff)
    moreover from m have "filter (\<lambda>r'. snd r' ''code'' = ?row ''code'') new' = []"
      by (auto simp add: filter_empty_conv)
    ultimately show ?thesis using t by simp
  qed
  with q have "\<forall>r\<in>set ((?i, ?row) # new'). snd r ''code'' \<noteq> Null \<longrightarrow>
          length (filter (\<lambda>r'. snd r' ''code'' = snd r ''code'') (transport_request db1)) = 1"
    by (metis set_ConsD snd_conv)
  with t f s ids show ?case
    by (intro exI [of _ "(?i, ?row) # new'"]) simp
qed




lemma create_duplicate_code_refused:
  "fst (create example_pool (busy_db\<lparr>ir_sequence := 7\<rparr>) [example_values]) =
     Inl (UserError ''This Request Code already exists'') \<and>
   map fst (transport_request
     (snd (create example_pool (busy_db\<lparr>ir_sequence := 7\<rparr>) [example_values]))) = [1, 2]"
  by (intro conjI; code_simp)

text \<open>
  C10.  When \<open>create\<close> succeeds, the row stored for a dictionary that does not mention
  the field \<open>state\<close> has the state \<open>open\<close>.
\<close>

theorem create_default_state:
  assumes ok: "create pool db vlist = (Inr ids, db1)"
    and k: "k < length vlist"
    and nostate: "(vlist ! k) ''state'' = None"
  shows "\<exists>new. transport_request db1 = transport_request db @ new \<and>
      map fst new = ids \<and> length new = length vlist \<and>
      snd (new ! k) ''state'' = Str ''open''"
proof -
  from ok obtain vs db0 where l: "create_loop pool db vlist = (Inr vs, db0)"
    and c: "ModelSQL_create pool db0 vs = (Inr ids, db1)"
    by (auto simp add: create_def split: prod.splits sum.splits)
  from l have len: "length vs = length vlist"
    by (rule create_loop_length)
  from l have tr: "transport_request db0 = transport_request db"
    by (rule create_loop_table)
  have st: "(vs ! k) ''state'' = None"
  proof (cases "bool_val (dict_get (vlist ! k) ''code'')")
    case True
    from create_loop_keep [OF l k True] nostate show ?thesis by simp
  next
    case False
    from create_loop_code [OF l k False] nostate show ?thesis by auto
  qed
  from ModelSQL_create_ok [OF c] obtain new where
        t: "transport_request db1 = transport_request db0 @ new"
    and f: "map fst new = ids" and s: "map snd new = map (new_row pool) vs"
    by blast
  from s have ln: "length new = length vs"
    by (metis length_map)
  with k len have kn: "k < length new" by simp
  from s kn ln have "snd (new ! k) = new_row pool (vs ! k)"
    by (metis nth_map)
  with st have "snd (new ! k) ''state'' = Str ''open''"
    by (simp add: new_row_def dict_get_def defaults_def default_state_def map_add_def)
  with t tr f ln len show ?thesis by auto
qed

theorem create_default_state_witness:
  "fst (create example_pool example_db [example_values]) = Inr [1] \<and>
   ([example_values] ! 0) ''state'' = None \<and>
   (\<exists>new. transport_request (snd (create example_pool example_db [example_values])) =
        transport_request example_db @ new \<and>
      map fst new = [1] \<and> length new = length [example_values] \<and>
      snd (new ! 0) ''state'' = Str ''open'')"
proof -
  have f: "fst (create example_pool example_db [example_values]) = Inr [1]"
    by (simp add: create_def example_pool_def example_db_def example_values_def
        config_sequence_def counter_get_id_def dict_get_def new_row_def defaults_def
        default_request_date_def default_operator_def default_state_def required_fields_def
        sql_constraints_def)
  then have ok: "create example_pool example_db [example_values] =
      (Inr [1], snd (create example_pool example_db [example_values]))"
    by (metis prod.collapse)
  have k: "0 < length [example_values]"
    by simp
  have nostate: "([example_values] ! 0) ''state'' = None"
    by (simp add: example_values_def)
  note c = create_default_state [OF ok k nostate]
  from f nostate c show ?thesis
    by (intro conjI)
qed

text \<open>
  C8.  When the singleton configuration row is missing or its sequence reference is not
  set, and some dictionary has no explicit code, \<open>create\<close> raises an error and the
  database is, at that moment, the one it was called on: no request is stored and no
  code is drawn.
\<close>

theorem create_without_sequence_fails:
  assumes "sequences_row db = None \<or>
      (\<exists>config. sequences_row db = Some config \<and> transport_request_code_sequence config = None)"
    and "\<exists>values\<in>set vlist. \<not> bool_val (dict_get values ''code'')"
  shows "create pool db vlist = (Inl AttributeError, db)"
proof -
  from assms(1) have "config_sequence db = None"
    by (auto simp add: config_sequence_def)
  moreover from assms(2) have "list_ex (\<lambda>values. \<not> bool_val (dict_get values ''code'')) vlist"
    by (simp add: list_ex_iff)
  ultimately have "create_loop pool db vlist = (Inl AttributeError, db)"
    by (rule create_loop_fails)
  then show ?thesis
    by (simp add: create_def)
qed

theorem create_without_sequence_fails_witness:
  "sequences_row (example_db\<lparr>sequences_row := None\<rparr>) = None \<and>
   \<not> bool_val (dict_get example_values ''code'') \<and>
   create example_pool (example_db\<lparr>sequences_row := None\<rparr>) [example_values] =
     (Inl AttributeError, example_db\<lparr>sequences_row := None\<rparr>) \<and>
   create example_pool
       (example_db\<lparr>sequences_row := Some \<lparr>transport_request_code_sequence = None\<rparr>\<rparr>)
       [example_values] =
     (Inl AttributeError,
      example_db\<lparr>sequences_row := Some \<lparr>transport_request_code_sequence = None\<rparr>\<rparr>)"
proof -
  have n: "sequences_row (example_db\<lparr>sequences_row := None\<rparr>) = None"
    by simp
  have nocode: "\<not> bool_val (dict_get example_values ''code'')"
    by (simp add: example_values_def dict_get_def)
  then have v: "\<exists>values\<in>set [example_values]. \<not> bool_val (dict_get values ''code'')"
    by simp
  from n have h1: "sequences_row (example_db\<lparr>sequences_row := None\<rparr>) = None \<or>
      (\<exists>config. sequences_row (example_db\<lparr>sequences_row := None\<rparr>) = Some config \<and>
         transport_request_code_sequence config = None)"
    by (rule disjI1)
  have h2: "sequences_row
        (example_db\<lparr>sequences_row := Some \<lparr>transport_request_code_sequence = None\<rparr>\<rparr>) = None \<or>
      (\<exists>config. sequences_row
          (example_db\<lparr>sequences_row := Some \<lparr>transport_request_code_sequence = None\<rparr>\<rparr>) =
            Some config \<and>
         transport_request_code_sequence config = None)"
    by simp
  note c1 = create_without_sequence_fails [OF h1 v, of example_pool]
  note c2 = create_without_sequence_fails [OF h2 v, of example_pool]
  from n nocode c1 c2 show ?thesis
    by (intro conjI)
qed

end
